theory Spec2Isabelle
  imports Main "HOL-Library.Word"
begin

section \<open>The contract ConfidentialRiskAssessment\<close>

text \<open>
  A shallow embedding of the Solidity contract \<open>ConfidentialRiskAssessment\<close>
  (pragma \<open>^0.8.24\<close>, so integer arithmetic is checked: an overflowing \<open>++\<close> reverts).

  \<^item> \<open>uint32\<close>, \<open>uint16\<close> and \<open>uint8\<close> are words of that width. \<open>uint256\<close> values
    (timestamps, counts) are natural numbers: the contract only divides them, takes
    remainders, compares them, and counts the entries of an array, none of which can
    leave 256 bits.
  \<^item> An encrypted value (\<open>euint8\<close>, \<open>euint16\<close>, \<open>euint32\<close>) is the handle the FHE
    library returns; the zero handle is the value of an unwritten storage slot.
  \<^item> A transaction either reverts, which leaves the storage as it was and is the
    value \<open>Inl\<close> of the revert reason, or returns the new storage together with the
    events it emitted, in order.
  \<^item> The library \<open>@fhevm/solidity\<close> is not part of the repository. Its cryptography
    is a parameter of the model, the record \<open>fhe\<close>, and the handle that
    \<open>FHE.randEuint8()\<close> returns in a transaction is part of that transaction's
    environment. What the library keeps between transactions is part of the storage:
    the access-control grants the contract issues (the field \<open>acl\<close>), and the
    decryption requests (the fields \<open>counterRequest\<close> and \<open>requestedHandles\<close>), which
    \<open>FHE.requestDecryption\<close> writes and \<open>FHE.checkSignatures\<close> reads.
\<close>

type_synonym address = "160 word"
type_synonym handle = nat
type_synonym bytes = "8 word list"

definition BUSINESS_HOURS_START :: nat where
  "BUSINESS_HOURS_START = 9"

definition BUSINESS_HOURS_END :: nat where
  "BUSINESS_HOURS_END = 17"

record RiskProfile =
  encryptedCreditScore :: handle
  encryptedIncome :: handle
  encryptedEmploymentYears :: handle
  encryptedDebtRatio :: handle
  hasSubmitted :: bool
  timestamp :: nat
  applicant :: address

record Assessment =
  riskThreshold :: handle
  thresholdSet :: bool
  assessmentCompleted :: bool
  finalRiskLevel :: "8 word"
  startTime :: nat
  endTime :: nat
  applicants :: "address list"
  profiles :: "address \<Rightarrow> RiskProfile"
  approvedApplicants :: "address \<Rightarrow> bool"

record storage =
  owner :: address
  currentAssessmentId :: "32 word"
  lastAssessmentTime :: nat
  assessments :: "32 word \<Rightarrow> Assessment"
  acl :: "(handle \<times> address) set"
  counterRequest :: nat
  requestedHandles :: "nat \<Rightarrow> handle list"

text \<open>The transaction environment: \<open>msg.sender\<close>, \<open>block.timestamp\<close>, and the handle
  that \<open>FHE.randEuint8()\<close> yields when the transaction calls it.\<close>

record env =
  msg_sender :: address
  block_timestamp :: nat
  randEuint8 :: handle

text \<open>The cryptography of the FHE library as the contract sees it: the contract's own
  address (for \<open>FHE.allowThis\<close>), the trivial encryptions, the verification of the
  oracle's signatures over the handles of a request, the cleartext (its second argument
  stands for \<open>abi.encode(riskThreshold)\<close>) and the proof, and the hash
  \<open>uint256(keccak256(abi.encodePacked(applicant, currentAssessmentId)))\<close>.\<close>

record fhe =
  this :: address
  asEuint8 :: "8 word \<Rightarrow> handle"
  asEuint16 :: "16 word \<Rightarrow> handle"
  asEuint32 :: "32 word \<Rightarrow> handle"
  verifySignatures :: "handle list \<Rightarrow> 8 word \<Rightarrow> bytes \<Rightarrow> bool"
  keccak256 :: "address \<Rightarrow> 32 word \<Rightarrow> nat"

datatype event =
    AssessmentStarted "32 word" nat
  | ProfileSubmitted address "32 word"
  | AssessmentCompleted "32 word" nat
  | RiskLevelRevealed "32 word" "8 word"

text \<open>The revert reasons of the contract, one per \<open>require\<close> message, the two reverts
  of \<open>FHE.checkSignatures\<close> (no handles stored under the request identifier; the
  signatures do not verify), and the arithmetic panic of a checked increment.\<close>

datatype error =
    NotAuthorized
  | NotDuringBusinessHours
  | AssessmentWindowNotActive
  | NotEvaluationTime
  | AssessmentAlreadyActive
  | InvalidCreditScore
  | InvalidEmploymentYears
  | InvalidDebtRatio
  | ProfileAlreadySubmitted
  | NoThresholdSet
  | AssessmentAlreadyCompleted
  | AssessmentNotCompleted
  | NoHandleFoundForRequestID
  | InvalidKMSSignatures
  | ArithmeticOverflow

text \<open>The contract reverts with messages; the specification names error kinds. Each
  message gets the kind the specification gives to the check that raises it: the owner
  check is an \<open>AuthorizationError\<close>, the three window modifiers are \<open>TimingError\<close>, the
  checks on the cycle's flags are \<open>StateError\<close>, the three bounds are \<open>RangeError\<close>, the
  check of \<open>hasSubmitted\<close> is \<open>DuplicateSubmissionError\<close>, and a revert of
  \<open>FHE.checkSignatures\<close> is \<open>VerificationError\<close>. The arithmetic panic has no kind in
  the specification.\<close>

datatype error_kind =
    AuthorizationError
  | TimingError
  | StateError
  | RangeError
  | DuplicateSubmissionError
  | VerificationError
  | PanicError

fun kind :: "error \<Rightarrow> error_kind" where
  "kind NotAuthorized = AuthorizationError"
| "kind NotDuringBusinessHours = TimingError"
| "kind AssessmentWindowNotActive = TimingError"
| "kind NotEvaluationTime = TimingError"
| "kind AssessmentAlreadyActive = StateError"
| "kind InvalidCreditScore = RangeError"
| "kind InvalidEmploymentYears = RangeError"
| "kind InvalidDebtRatio = RangeError"
| "kind ProfileAlreadySubmitted = DuplicateSubmissionError"
| "kind NoThresholdSet = StateError"
| "kind AssessmentAlreadyCompleted = StateError"
| "kind AssessmentNotCompleted = StateError"
| "kind NoHandleFoundForRequestID = VerificationError"
| "kind InvalidKMSSignatures = VerificationError"
| "kind ArithmeticOverflow = PanicError"

definition fails_with :: "error_kind \<Rightarrow> error + 'a \<Rightarrow> bool" where
  "fails_with k r = (case r of Inl err \<Rightarrow> kind err = k | Inr _ \<Rightarrow> False)"

subsection \<open>Storage at deployment\<close>

definition zeroRiskProfile :: RiskProfile where
  "zeroRiskProfile =
     \<lparr>encryptedCreditScore = 0, encryptedIncome = 0, encryptedEmploymentYears = 0,
      encryptedDebtRatio = 0, hasSubmitted = False, timestamp = 0, applicant = 0\<rparr>"

definition zeroAssessment :: Assessment where
  "zeroAssessment =
     \<lparr>riskThreshold = 0, thresholdSet = False, assessmentCompleted = False,
      finalRiskLevel = 0, startTime = 0, endTime = 0, applicants = [],
      profiles = (\<lambda>_. zeroRiskProfile), approvedApplicants = (\<lambda>_. False)\<rparr>"

definition constructor :: "env \<Rightarrow> storage" where
  "constructor e =
     \<lparr>owner = msg_sender e, currentAssessmentId = 1,
      lastAssessmentTime = block_timestamp e,
      assessments = (\<lambda>_. zeroAssessment), acl = {},
      counterRequest = 0, requestedHandles = (\<lambda>_. [])\<rparr>"

subsection \<open>Time windows\<close>

definition getCurrentHour :: "env \<Rightarrow> nat" where
  "getCurrentHour e = (block_timestamp e div 3600) mod 24"

definition isBusinessHours :: "env \<Rightarrow> bool" where
  "isBusinessHours e =
     (let currentHour = (block_timestamp e div 3600) mod 24
      in currentHour \<ge> BUSINESS_HOURS_START \<and> currentHour < BUSINESS_HOURS_END)"

definition isAssessmentWindowActive :: "env \<Rightarrow> storage \<Rightarrow> bool" where
  "isAssessmentWindowActive e s =
     (if \<not> thresholdSet (assessments s (currentAssessmentId s)) then False
      else if assessmentCompleted (assessments s (currentAssessmentId s)) then False
      else isBusinessHours e)"

definition isEvaluationTimeActive :: "env \<Rightarrow> storage \<Rightarrow> bool" where
  "isEvaluationTimeActive e s =
     (\<not> isBusinessHours e \<and>
      thresholdSet (assessments s (currentAssessmentId s)) \<and>
      \<not> assessmentCompleted (assessments s (currentAssessmentId s)))"

subsection \<open>Transactions\<close>

text \<open>The modifiers run in the order they are written: \<open>onlyOwner\<close>, then
  \<open>onlyDuringBusinessHours\<close>, then the body.\<close>

definition startNewAssessment :: "fhe \<Rightarrow> env \<Rightarrow> storage \<Rightarrow> error + storage \<times> event list" where
  "startNewAssessment L e s =
     (if msg_sender e \<noteq> owner s then Inl NotAuthorized
      else if \<not> isBusinessHours e then Inl NotDuringBusinessHours
      else if \<not> (\<not> thresholdSet (assessments s (currentAssessmentId s)) \<or>
                  assessmentCompleted (assessments s (currentAssessmentId s)))
        then Inl AssessmentAlreadyActive
      else
        let newAssessment = (assessments s (currentAssessmentId s))
              \<lparr>riskThreshold := randEuint8 e,
               thresholdSet := True,
               assessmentCompleted := False,
               startTime := block_timestamp e,
               applicants := []\<rparr>
        in Inr (s\<lparr>assessments := (assessments s)(currentAssessmentId s := newAssessment),
                  acl := insert (randEuint8 e, this L) (acl s)\<rparr>,
                [AssessmentStarted (currentAssessmentId s) (block_timestamp e)]))"

definition submitRiskProfile ::
  "fhe \<Rightarrow> env \<Rightarrow> 16 word \<Rightarrow> 32 word \<Rightarrow> 8 word \<Rightarrow> 16 word \<Rightarrow> storage
     \<Rightarrow> error + storage \<times> event list" where
  "submitRiskProfile L e creditScore income employmentYears debtRatio s =
     (if \<not> isAssessmentWindowActive e s then Inl AssessmentWindowNotActive
      else if \<not> creditScore \<le> 850 then Inl InvalidCreditScore
      else if \<not> employmentYears \<le> 50 then Inl InvalidEmploymentYears
      else if \<not> debtRatio \<le> 100 then Inl InvalidDebtRatio
      else if hasSubmitted (profiles (assessments s (currentAssessmentId s)) (msg_sender e))
        then Inl ProfileAlreadySubmitted
      else
        let a = assessments s (currentAssessmentId s);
            profile = \<lparr>encryptedCreditScore = asEuint16 L creditScore,
                       encryptedIncome = asEuint32 L income,
                       encryptedEmploymentYears = asEuint8 L employmentYears,
                       encryptedDebtRatio = asEuint16 L debtRatio,
                       hasSubmitted = True,
                       timestamp = block_timestamp e,
                       applicant = msg_sender e\<rparr>;
            a' = a\<lparr>profiles := (profiles a)(msg_sender e := profile),
                   applicants := applicants a @ [msg_sender e]\<rparr>
        in Inr (s\<lparr>assessments := (assessments s)(currentAssessmentId s := a'),
                  acl := acl s \<union>
                    {(asEuint16 L creditScore, this L), (asEuint32 L income, this L),
                     (asEuint8 L employmentYears, this L), (asEuint16 L debtRatio, this L),
                     (asEuint16 L creditScore, msg_sender e), (asEuint32 L income, msg_sender e),
                     (asEuint8 L employmentYears, msg_sender e),
                     (asEuint16 L debtRatio, msg_sender e)}\<rparr>,
                [ProfileSubmitted (msg_sender e) (currentAssessmentId s)]))"

text \<open>The decryption requests of the library, which is not part of the repository,
  are modelled as follows. \<open>FHE.requestDecryption\<close> takes the
  value of the request counter as the request identifier, stores the requested handles
  under it and increments the counter; the oracle is called outside the storage.
  \<open>FHE.checkSignatures\<close> loads the handles stored under the request identifier,
  reverts when there are none, and reverts when the signatures do not verify over these
  handles, the cleartexts and the proof; it writes nothing, so the handles of a request
  stay stored. \<open>None\<close> is the call that returns.\<close>

definition requestDecryption :: "handle list \<Rightarrow> storage \<Rightarrow> nat \<times> storage" where
  "requestDecryption cts s =
     (counterRequest s,
      s\<lparr>requestedHandles := (requestedHandles s)(counterRequest s := cts),
        counterRequest := counterRequest s + 1\<rparr>)"

definition checkSignatures :: "fhe \<Rightarrow> storage \<Rightarrow> nat \<Rightarrow> 8 word \<Rightarrow> bytes \<Rightarrow> error option" where
  "checkSignatures L s requestId cleartexts signatures =
     (let handlesList = requestedHandles s requestId
      in if handlesList = [] then Some NoHandleFoundForRequestID
         else if \<not> verifySignatures L handlesList cleartexts signatures
           then Some InvalidKMSSignatures
         else None)"

text \<open>\<open>processRiskAssessment\<close> requests the decryption of the threshold handle and
  discards the request identifier it gets; it writes nothing else.\<close>

definition processRiskAssessment :: "env \<Rightarrow> storage \<Rightarrow> error + storage \<times> event list" where
  "processRiskAssessment e s =
     (if \<not> isEvaluationTimeActive e s then Inl NotEvaluationTime
      else if \<not> thresholdSet (assessments s (currentAssessmentId s)) then Inl NoThresholdSet
      else if assessmentCompleted (assessments s (currentAssessmentId s))
        then Inl AssessmentAlreadyCompleted
      else
        let cts = [riskThreshold (assessments s (currentAssessmentId s))]
        in Inr (snd (requestDecryption cts s), []))"

definition calculateRiskScore :: "fhe \<Rightarrow> 32 word \<Rightarrow> address \<Rightarrow> 8 word \<Rightarrow> bool" where
  "calculateRiskScore L cid a threshold =
     (let addressHash = keccak256 L a cid;
          simulatedRisk = (word_of_nat (addressHash mod 101) :: 8 word)
      in simulatedRisk \<le> threshold)"

text \<open>The loop of \<open>_evaluateApplicants\<close> over the array \<open>applicants\<close>, from index 0:
  the approval mapping and the counter \<open>approved\<close> are the loop's state.\<close>

fun evaluateLoop ::
  "fhe \<Rightarrow> 32 word \<Rightarrow> 8 word \<Rightarrow> address list \<Rightarrow> (address \<Rightarrow> bool) \<Rightarrow> nat
     \<Rightarrow> (address \<Rightarrow> bool) \<times> nat" where
  "evaluateLoop L cid threshold [] approvedMap approved = (approvedMap, approved)"
| "evaluateLoop L cid threshold (a # as) approvedMap approved =
     (if calculateRiskScore L cid a threshold
      then evaluateLoop L cid threshold as (approvedMap(a := True)) (approved + 1)
      else evaluateLoop L cid threshold as approvedMap approved)"

definition evaluateApplicants :: "fhe \<Rightarrow> 8 word \<Rightarrow> storage \<Rightarrow> storage \<times> nat" where
  "evaluateApplicants L threshold s =
     (let a = assessments s (currentAssessmentId s);
          r = evaluateLoop L (currentAssessmentId s) threshold (applicants a)
                (approvedApplicants a) 0
      in (s\<lparr>assessments := (assessments s)
              (currentAssessmentId s := a\<lparr>approvedApplicants := fst r\<rparr>)\<rparr>, snd r))"

text \<open>The callback. Its only check is \<open>FHE.checkSignatures\<close>; it reads neither
  \<open>thresholdSet\<close> nor \<open>assessmentCompleted\<close> and writes nothing about \<open>requestId\<close>.
  The increment of the \<open>uint32\<close> identifier is checked: at \<open>2^32 - 1\<close> it panics, which
  reverts the whole transaction.\<close>

definition processAssessmentResult ::
  "fhe \<Rightarrow> env \<Rightarrow> nat \<Rightarrow> 8 word \<Rightarrow> bytes \<Rightarrow> storage \<Rightarrow> error + storage \<times> event list" where
  "processAssessmentResult L e requestId threshold signatures s =
     (case checkSignatures L s requestId threshold signatures of
        Some err \<Rightarrow> Inl err
      | None \<Rightarrow>
        let cid = currentAssessmentId s;
            s1 = s\<lparr>assessments := (assessments s)
                   (cid := (assessments s cid)
                      \<lparr>finalRiskLevel := threshold, endTime := block_timestamp e\<rparr>)\<rparr>;
            r = evaluateApplicants L threshold s1;
            s2 = fst r;
            approvedCount = snd r;
            s3 = s2\<lparr>assessments := (assessments s2)
                   (cid := (assessments s2 cid)\<lparr>assessmentCompleted := True\<rparr>)\<rparr>
        in if unat cid + 1 < 2 ^ 32
           then Inr (s3\<lparr>currentAssessmentId := cid + 1\<rparr>,
                     [AssessmentCompleted cid approvedCount, RiskLevelRevealed cid threshold])
           else Inl ArithmeticOverflow)"

definition pauseCurrentAssessment :: "env \<Rightarrow> storage \<Rightarrow> error + storage \<times> event list" where
  "pauseCurrentAssessment e s =
     (if msg_sender e \<noteq> owner s then Inl NotAuthorized
      else Inr (s\<lparr>assessments := (assessments s)
                  (currentAssessmentId s := (assessments s (currentAssessmentId s))
                     \<lparr>assessmentCompleted := True, endTime := block_timestamp e\<rparr>)\<rparr>, []))"

subsection \<open>Queries\<close>

definition getCurrentAssessmentInfo :: "storage \<Rightarrow> 32 word \<times> bool \<times> bool \<times> nat \<times> nat" where
  "getCurrentAssessmentInfo s =
     (let currentAssessment = assessments s (currentAssessmentId s)
      in (currentAssessmentId s, thresholdSet currentAssessment,
          assessmentCompleted currentAssessment, startTime currentAssessment,
          length (applicants currentAssessment)))"

definition getApplicantStatus :: "storage \<Rightarrow> address \<Rightarrow> bool \<times> nat \<times> bool" where
  "getApplicantStatus s a =
     (let assessment = assessments s (currentAssessmentId s);
          profile = profiles assessment a
      in (hasSubmitted profile, timestamp profile, approvedApplicants assessment a))"

definition getAssessmentHistory :: "storage \<Rightarrow> 32 word \<Rightarrow> bool \<times> 8 word \<times> nat \<times> nat \<times> nat" where
  "getAssessmentHistory s assessmentId =
     (let assessment = assessments s assessmentId
      in (assessmentCompleted assessment, finalRiskLevel assessment, startTime assessment,
          endTime assessment, length (applicants assessment)))"

definition checkApprovalStatus :: "storage \<Rightarrow> 32 word \<Rightarrow> address \<Rightarrow> error + bool" where
  "checkApprovalStatus s assessmentId a =
     (if \<not> assessmentCompleted (assessments s assessmentId) then Inl AssessmentNotCompleted
      else Inr (approvedApplicants (assessments s assessmentId) a))"

subsection \<open>Sequences of transactions\<close>

datatype call =
    StartNewAssessment
  | SubmitRiskProfile "16 word" "32 word" "8 word" "16 word"
  | ProcessRiskAssessment
  | ProcessAssessmentResult nat "8 word" bytes
  | PauseCurrentAssessment

fun exec :: "fhe \<Rightarrow> env \<Rightarrow> call \<Rightarrow> storage \<Rightarrow> error + storage \<times> event list" where
  "exec L e StartNewAssessment s = startNewAssessment L e s"
| "exec L e (SubmitRiskProfile c i y d) s = submitRiskProfile L e c i y d s"
| "exec L e ProcessRiskAssessment s = processRiskAssessment e s"
| "exec L e (ProcessAssessmentResult requestId threshold signatures) s =
     processAssessmentResult L e requestId threshold signatures s"
| "exec L e PauseCurrentAssessment s = pauseCurrentAssessment e s"

text \<open>The storage after a sequence of transactions, each in its own environment; a
  transaction that reverts leaves the storage as it was. The states the contract can be
  in are \<open>run L cs (constructor e)\<close>.\<close>

fun run :: "fhe \<Rightarrow> (env \<times> call) list \<Rightarrow> storage \<Rightarrow> storage" where
  "run L [] s = s"
| "run L (ec # cs) s =
     (case exec L (fst ec) (snd ec) s of
        Inl _ \<Rightarrow> run L cs s
      | Inr r \<Rightarrow> run L cs (fst r))"

text \<open>A cycle is active when its threshold is set and it is not completed.\<close>

definition active :: "storage \<Rightarrow> 32 word \<Rightarrow> bool" where
  "active s i = (thresholdSet (assessments s i) \<and> \<not> assessmentCompleted (assessments s i))"

text \<open>What holds of the cycle records in every state the contract can be in: the current
  identifier is not 0; the record 0 and every record above the current identifier are
  unwritten; every cycle from 1 up to, but excluding, the current one is completed; and
  nobody is approved in the current cycle.\<close>

definition cycles_ok :: "storage \<Rightarrow> bool" where
  "cycles_ok s =
     (currentAssessmentId s \<noteq> 0
      \<and> (\<forall>i. i = 0 \<or> currentAssessmentId s < i \<longrightarrow> assessments s i = zeroAssessment)
      \<and> (\<forall>i. i \<noteq> 0 \<and> i < currentAssessmentId s \<longrightarrow> assessmentCompleted (assessments s i))
      \<and> approvedApplicants (assessments s (currentAssessmentId s)) = (\<lambda>_. False))"

section \<open>A scenario\<close>

text \<open>A library instance and the states of one run of the contract: deployed by the owner
  \<open>0xA\<close> at 10:00, a cycle started at 10:00, one profile submitted by \<open>0xB1\<close>, the
  decryption of the threshold requested at 19:59 (request identifier 0), then either
  completed by the callback at 20:01, or paused by the owner at 20:00 and started again
  at 10:00 on the next day. Timestamps are seconds, so 36000 is 10:00 and 72000 is
  20:00. In this instance the proof that verifies is the list of the requested handles
  followed by the cleartext.\<close>

definition ex_lib :: fhe where
  "ex_lib = \<lparr>this = 0xC0, asEuint8 = (\<lambda>w. unat w + 1), asEuint16 = (\<lambda>w. unat w + 1000),
     asEuint32 = (\<lambda>w. unat w + 100000),
     verifySignatures = (\<lambda>hs th sg. sg = map word_of_nat hs @ [th]),
     keccak256 = (\<lambda>a cid. unat a + unat cid)\<rparr>"

definition ex_env :: "address \<Rightarrow> nat \<Rightarrow> env" where
  "ex_env a t = \<lparr>msg_sender = a, block_timestamp = t, randEuint8 = 77\<rparr>"

definition ex_deployed :: storage where
  "ex_deployed = constructor (ex_env 0xA 36000)"

definition ex_started :: storage where
  "ex_started = run ex_lib [(ex_env 0xA 36000, StartNewAssessment)] ex_deployed"

definition ex_submitted :: storage where
  "ex_submitted = run ex_lib [(ex_env 0xB1 36100, SubmitRiskProfile 800 100000 10 20)] ex_started"

definition ex_requested :: storage where
  "ex_requested = run ex_lib [(ex_env 0xB2 71990, ProcessRiskAssessment)] ex_submitted"

definition ex_paused :: storage where
  "ex_paused = run ex_lib [(ex_env 0xA 72000, PauseCurrentAssessment)] ex_requested"

definition ex_completed :: storage where
  "ex_completed =
     run ex_lib [(ex_env 0xDD 72060, ProcessAssessmentResult 0 80 [77, 80])] ex_requested"

definition ex_restarted :: storage where
  "ex_restarted = run ex_lib [(ex_env 0xA 122400, StartNewAssessment)] ex_paused"

text \<open>Whole cycles, one a day: on day \<open>k\<close> the owner starts a cycle at 10:00, the
  decryption is requested at 20:00, which issues the request identifier \<open>k\<close>, and the
  oracle's callback for that request arrives at 20:01.\<close>

definition ex_cycle :: "nat \<Rightarrow> (env \<times> call) list" where
  "ex_cycle k =
     [(ex_env 0xA (86400 * k + 36000), StartNewAssessment),
      (ex_env 0xB2 (86400 * k + 72000), ProcessRiskAssessment),
      (ex_env 0xDD (86400 * k + 72060), ProcessAssessmentResult k 80 [77, 80])]"

fun ex_cycles :: "nat \<Rightarrow> (env \<times> call) list" where
  "ex_cycles 0 = []"
| "ex_cycles (Suc n) = ex_cycles n @ ex_cycle n"

text \<open>The definitions a concrete run unfolds.\<close>

lemmas ex_defs = ex_lib_def ex_env_def ex_deployed_def ex_started_def ex_submitted_def
  ex_requested_def ex_paused_def ex_completed_def ex_restarted_def constructor_def
  startNewAssessment_def submitRiskProfile_def isBusinessHours_def isAssessmentWindowActive_def
  isEvaluationTimeActive_def BUSINESS_HOURS_START_def BUSINESS_HOURS_END_def Let_def
  processAssessmentResult_def pauseCurrentAssessment_def evaluateApplicants_def calculateRiskScore_def
  zeroAssessment_def zeroRiskProfile_def processRiskAssessment_def requestDecryption_def
  checkSignatures_def

section \<open>Auxiliary facts\<close>

lemma unat_inc32: "unat (x::32 word) + 1 < 2 ^ 32 \<Longrightarrow> unat (x + 1) = unat x + 1"
  by (simp add: unat_word_ariths)

lemma less_inc32: "unat (x::32 word) + 1 < 2 ^ 32 \<Longrightarrow> x < x + 1"
  by (simp add: word_less_nat_alt unat_inc32)

lemma less_inc32_iff: "unat (x::32 word) + 1 < 2 ^ 32 \<Longrightarrow> (i < x + 1) = (i \<le> x)"
  by (auto simp add: word_less_nat_alt word_le_nat_alt unat_inc32)

lemma inc32_nonzero: "unat (x::32 word) + 1 < 2 ^ 32 \<Longrightarrow> x + 1 \<noteq> 0"
  using unat_inc32 [of x] by (auto simp del: unat_eq_zero)

lemma evaluateLoop_eq:
  "evaluateLoop L cid th xs ap n =
     (\<lambda>a. ap a \<or> (a \<in> set xs \<and> calculateRiskScore L cid a th),
      n + length (filter (\<lambda>a. calculateRiskScore L cid a th) xs))"
  by (induction xs arbitrary: ap n) (auto simp: fun_eq_iff)

lemma inv_constructor: "cycles_ok (constructor e)"
  by (simp add: cycles_ok_def constructor_def zeroAssessment_def)

lemma callback_Inr:
  assumes "processAssessmentResult L e rid th sg s = Inr r"
  shows "checkSignatures L s rid th sg = None \<and> unat (currentAssessmentId s) + 1 < 2 ^ 32 \<and>
    fst r = s\<lparr>assessments := (assessments s)(currentAssessmentId s :=
                (assessments s (currentAssessmentId s))
                  \<lparr>finalRiskLevel := th, endTime := block_timestamp e,
                   approvedApplicants := (\<lambda>a. approvedApplicants (assessments s (currentAssessmentId s)) a \<or>
                      (a \<in> set (applicants (assessments s (currentAssessmentId s))) \<and>
                       calculateRiskScore L (currentAssessmentId s) a th)),
                   assessmentCompleted := True\<rparr>),
              currentAssessmentId := currentAssessmentId s + 1\<rparr>"
  using assms
  by (auto simp: processAssessmentResult_def evaluateApplicants_def evaluateLoop_eq Let_def
      split: if_splits option.splits)

lemma exec_owner: "exec L e c s = Inr r \<Longrightarrow> owner (fst r) = owner s"
  by (cases c)
    (auto simp: startNewAssessment_def submitRiskProfile_def pauseCurrentAssessment_def
      processRiskAssessment_def requestDecryption_def Let_def
      dest!: callback_Inr split: if_splits)

lemma exec_other_unchanged:
  "exec L e c s = Inr r \<Longrightarrow> i \<noteq> currentAssessmentId s \<Longrightarrow> assessments (fst r) i = assessments s i"
  by (cases c)
    (auto simp: startNewAssessment_def submitRiskProfile_def pauseCurrentAssessment_def
      processRiskAssessment_def requestDecryption_def Let_def
      dest!: callback_Inr split: if_splits)

lemma exec_id:
  "exec L e c s = Inr r \<Longrightarrow>
     currentAssessmentId (fst r) = currentAssessmentId s \<or>
     (currentAssessmentId (fst r) = currentAssessmentId s + 1 \<and>
      unat (currentAssessmentId s) + 1 < 2 ^ 32 \<and>
      assessmentCompleted (assessments (fst r) (currentAssessmentId s)))"
  by (cases c)
    (auto simp: startNewAssessment_def submitRiskProfile_def pauseCurrentAssessment_def
      processRiskAssessment_def requestDecryption_def Let_def
      dest!: callback_Inr split: if_splits)

lemma exec_approved:
  "exec L e c s = Inr r \<Longrightarrow> currentAssessmentId (fst r) = currentAssessmentId s \<Longrightarrow>
   approvedApplicants (assessments (fst r) (currentAssessmentId s)) =
   approvedApplicants (assessments s (currentAssessmentId s))"
  by (cases c)
    (auto simp: startNewAssessment_def submitRiskProfile_def pauseCurrentAssessment_def
      processRiskAssessment_def requestDecryption_def Let_def
      dest!: callback_Inr less_inc32 split: if_splits)

lemma exec_id_mono: "exec L e c s = Inr r \<Longrightarrow> currentAssessmentId s \<le> currentAssessmentId (fst r)"
  using exec_id [of L e c s r] less_inc32 [of "currentAssessmentId s"] by auto

lemma inv_zero: "cycles_ok s \<Longrightarrow> i = 0 \<or> currentAssessmentId s < i \<Longrightarrow> assessments s i = zeroAssessment"
  unfolding cycles_ok_def by blast

lemma inv_past: "cycles_ok s \<Longrightarrow> i \<noteq> 0 \<Longrightarrow> i < currentAssessmentId s \<Longrightarrow> assessmentCompleted (assessments s i)"
  unfolding cycles_ok_def by blast

lemma inv_id: "cycles_ok s \<Longrightarrow> currentAssessmentId s \<noteq> 0"
  unfolding cycles_ok_def by blast

lemma inv_approved: "cycles_ok s \<Longrightarrow> approvedApplicants (assessments s (currentAssessmentId s)) a = False"
  unfolding cycles_ok_def by simp

lemma inv_exec:
  assumes i: "cycles_ok s" and ex: "exec L e c s = Inr r"
  shows "cycles_ok (fst r)"
proof -
  let ?c = "currentAssessmentId s" and ?s' = "fst r"
  note oth = exec_other_unchanged [OF ex]
  from exec_id [OF ex] show ?thesis
  proof
    assume same: "currentAssessmentId ?s' = ?c"
    have b: "assessments ?s' j = zeroAssessment" if "j = 0 \<or> ?c < j" for j
    proof -
      from that inv_id [OF i] have "j \<noteq> ?c" by auto
      with oth [of j] inv_zero [OF i that] show ?thesis by simp
    qed
    have c: "assessmentCompleted (assessments ?s' j)" if "j \<noteq> 0" "j < ?c" for j
    proof -
      from that have "j \<noteq> ?c" by auto
      with oth [of j] inv_past [OF i that] show ?thesis by simp
    qed
    have d: "approvedApplicants (assessments ?s' ?c) = (\<lambda>_. False)"
      using exec_approved [OF ex same] inv_approved [OF i] by (simp add: fun_eq_iff)
    from b c d inv_id [OF i] same show ?thesis unfolding cycles_ok_def by simp
  next
    assume nxt: "currentAssessmentId ?s' = ?c + 1 \<and> unat ?c + 1 < 2 ^ 32 \<and>
      assessmentCompleted (assessments ?s' ?c)"
    then have lt: "?c < ?c + 1" and iff: "\<And>j. (j < ?c + 1) = (j \<le> ?c)" and nz: "?c + 1 \<noteq> 0"
      by (simp_all add: less_inc32 less_inc32_iff inc32_nonzero)
    have b: "assessments ?s' j = zeroAssessment" if "j = 0 \<or> ?c + 1 < j" for j
    proof -
      from that lt have z: "j = 0 \<or> ?c < j" by auto
      with inv_id [OF i] have "j \<noteq> ?c" by auto
      with oth [of j] inv_zero [OF i z] show ?thesis by simp
    qed
    have c: "assessmentCompleted (assessments ?s' j)" if "j \<noteq> 0" "j < ?c + 1" for j
    proof (cases "j = ?c")
      case True with nxt show ?thesis by simp
    next
      case False
      with that(2) iff have "j < ?c" by auto
      with False oth [of j] inv_past [OF i that(1)] show ?thesis by simp
    qed
    have "assessments ?s' (?c + 1) = zeroAssessment"
      using b [of "?c + 1"] lt oth [of "?c + 1"] inv_zero [OF i, of "?c + 1"] by simp
    then have d: "approvedApplicants (assessments ?s' (?c + 1)) = (\<lambda>_. False)"
      by (simp add: zeroAssessment_def)
    from b c d nz nxt show ?thesis unfolding cycles_ok_def by simp
  qed
qed

lemma inv_run: "cycles_ok s \<Longrightarrow> cycles_ok (run L cs s)"
  by (induction cs arbitrary: s) (auto split: sum.splits dest: inv_exec)

lemma run_id_mono: "currentAssessmentId s \<le> currentAssessmentId (run L cs s)"
proof (induction cs arbitrary: s)
  case Nil show ?case by simp
next
  case (Cons ec cs)
  show ?case
  proof (cases "exec L (fst ec) (snd ec) s")
    case (Inl err) with Cons show ?thesis by simp
  next
    case (Inr r)
    with Cons [of "fst r"] exec_id_mono [OF Inr] show ?thesis by simp
  qed
qed

lemma run_past_unchanged:
  "i < currentAssessmentId s \<Longrightarrow> assessments (run L cs s) i = assessments s i"
proof (induction cs arbitrary: s)
  case Nil show ?case by simp
next
  case (Cons ec cs)
  show ?case
  proof (cases "exec L (fst ec) (snd ec) s")
    case (Inl err) with Cons show ?thesis by simp
  next
    case (Inr r)
    from Cons.prems exec_id_mono [OF Inr] have "i < currentAssessmentId (fst r)" by simp
    with Cons.IH [of "fst r"] exec_other_unchanged [OF Inr, of i] Cons.prems Inr
    show ?thesis by simp
  qed
qed




lemma callback_Inr_iff:
  "(\<exists>r. processAssessmentResult L e rid th sg s = Inr r) =
     (checkSignatures L s rid th sg = None \<and> unat (currentAssessmentId s) + 1 < 2 ^ 32)"
  by (auto simp: processAssessmentResult_def Let_def split: option.splits)

lemma callback_Inl:
  "processAssessmentResult L e rid th sg s = Inl err \<Longrightarrow>
     checkSignatures L s rid th sg = Some err \<or>
     (err = ArithmeticOverflow \<and> checkSignatures L s rid th sg = None \<and>
      \<not> unat (currentAssessmentId s) + 1 < 2 ^ 32)"
  by (auto simp: processAssessmentResult_def Let_def split: if_splits option.splits)

lemma checkSignatures_Some:
  "checkSignatures L s rid th sg = Some err \<Longrightarrow>
     kind err = VerificationError \<and>
     (requestedHandles s rid = [] \<or> \<not> verifySignatures L (requestedHandles s rid) th sg)"
  by (auto simp: checkSignatures_def Let_def split: if_splits)

lemma checkSignatures_None:
  "(checkSignatures L s rid th sg = None) =
     (requestedHandles s rid \<noteq> [] \<and> verifySignatures L (requestedHandles s rid) th sg)"
  by (auto simp: checkSignatures_def Let_def)

lemma callback_requests:
  "processAssessmentResult L e rid th sg s = Inr r \<Longrightarrow>
     requestedHandles (fst r) = requestedHandles s \<and> counterRequest (fst r) = counterRequest s"
  by (auto dest!: callback_Inr)

lemma completed_not_current_is_past:
  assumes "cycles_ok s" "assessmentCompleted (assessments s i)" "i \<noteq> currentAssessmentId s"
  shows "i < currentAssessmentId s"
proof (rule ccontr)
  assume "\<not> i < currentAssessmentId s"
  with assms(3) have "currentAssessmentId s < i" by auto
  from inv_zero [OF assms(1), of i] this assms(2) show False
    by (simp add: zeroAssessment_def)
qed

lemma start_Inr:
  assumes "startNewAssessment L e s = Inr r"
  shows "msg_sender e = owner s \<and> isBusinessHours e \<and>
    (\<not> thresholdSet (assessments s (currentAssessmentId s)) \<or>
       assessmentCompleted (assessments s (currentAssessmentId s))) \<and>
    fst r = s\<lparr>assessments := (assessments s)(currentAssessmentId s :=
                (assessments s (currentAssessmentId s))
                  \<lparr>riskThreshold := randEuint8 e, thresholdSet := True,
                   assessmentCompleted := False, startTime := block_timestamp e,
                   applicants := []\<rparr>),
              acl := insert (randEuint8 e, this L) (acl s)\<rparr>"
  using assms by (auto simp: startNewAssessment_def Let_def split: if_splits)

lemma run_append: "run L (xs @ ys) s = run L ys (run L xs s)"
  by (induction xs arbitrary: s) (auto split: sum.splits)

lemma callback_succeeds:
  assumes "checkSignatures L s rid th sg = None" and "unat (currentAssessmentId s) + 1 < 2 ^ 32"
  shows "processAssessmentResult L e rid th sg s =
    Inr (s\<lparr>assessments := (assessments s)(currentAssessmentId s :=
                (assessments s (currentAssessmentId s))
                  \<lparr>finalRiskLevel := th, endTime := block_timestamp e,
                   approvedApplicants := (\<lambda>a. approvedApplicants (assessments s (currentAssessmentId s)) a \<or>
                      (a \<in> set (applicants (assessments s (currentAssessmentId s))) \<and>
                       calculateRiskScore L (currentAssessmentId s) a th)),
                   assessmentCompleted := True\<rparr>),
              currentAssessmentId := currentAssessmentId s + 1\<rparr>,
         [AssessmentCompleted (currentAssessmentId s)
            (length (filter (\<lambda>a. calculateRiskScore L (currentAssessmentId s) a th)
               (applicants (assessments s (currentAssessmentId s))))),
          RiskLevelRevealed (currentAssessmentId s) th])"
  using assms
  by (simp add: processAssessmentResult_def evaluateApplicants_def evaluateLoop_eq Let_def)

lemma callback_overflows:
  assumes "checkSignatures L s rid th sg = None" and "\<not> unat (currentAssessmentId s) + 1 < 2 ^ 32"
  shows "processAssessmentResult L e rid th sg s = Inl ArithmeticOverflow"
  using assms by (simp add: processAssessmentResult_def Let_def)







lemma ex_hour_10: "(86400 * k + 36000) div 3600 mod 24 = (10::nat)"
proof -
  have "86400 * k + 36000 = (24 * k + 10) * 3600" by simp
  then have "(86400 * k + 36000) div 3600 = 24 * k + 10" by simp
  then show ?thesis by simp
qed

lemma ex_hour_20: "(86400 * k + 72000) div 3600 mod 24 = (20::nat)"
proof -
  have "86400 * k + 72000 = (24 * k + 20) * 3600" by simp
  then have "(86400 * k + 72000) div 3600 = 24 * k + 20" by simp
  then show ?thesis by simp
qed

lemma ex_start_request:
  assumes "owner s = 0xA" and "assessments s (currentAssessmentId s) = zeroAssessment"
    and "counterRequest s = k"
  shows "run ex_lib [(ex_env 0xA (86400 * k + 36000), StartNewAssessment),
                     (ex_env 0xB2 (86400 * k + 72000), ProcessRiskAssessment)] s
    = s\<lparr>assessments := (assessments s)(currentAssessmentId s :=
            zeroAssessment\<lparr>riskThreshold := 77, thresholdSet := True,
              startTime := 86400 * k + 36000\<rparr>),
         acl := insert (77, this ex_lib) (acl s),
         requestedHandles := (requestedHandles s)(k := [77]),
         counterRequest := k + 1\<rparr>"
  using assms
  by (simp add: startNewAssessment_def processRiskAssessment_def requestDecryption_def
      isBusinessHours_def isEvaluationTimeActive_def BUSINESS_HOURS_START_def
      BUSINESS_HOURS_END_def ex_env_def ex_hour_10 ex_hour_20 zeroAssessment_def Let_def)

lemma ex_cycle_step:
  assumes ok: "cycles_ok s" and "owner s = 0xA"
    and "assessments s (currentAssessmentId s) = zeroAssessment"
    and "counterRequest s = k" and room: "unat (currentAssessmentId s) + 1 < 2 ^ 32"
  shows "unat (currentAssessmentId (run ex_lib (ex_cycle k) s)) = unat (currentAssessmentId s) + 1
    \<and> counterRequest (run ex_lib (ex_cycle k) s) = k + 1
    \<and> owner (run ex_lib (ex_cycle k) s) = 0xA
    \<and> assessments (run ex_lib (ex_cycle k) s) (currentAssessmentId (run ex_lib (ex_cycle k) s))
        = zeroAssessment"
proof -
  let ?s2 = "run ex_lib [(ex_env 0xA (86400 * k + 36000), StartNewAssessment),
                     (ex_env 0xB2 (86400 * k + 72000), ProcessRiskAssessment)] s"
  let ?cb = "(ex_env 0xDD (86400 * k + 72060), ProcessAssessmentResult k 80 [77, 80])"
  note s2 = ex_start_request [OF assms(2,3,4)]
  have chk: "checkSignatures ex_lib ?s2 k 80 [77, 80] = None"
    unfolding s2 by (simp add: checkSignatures_def ex_lib_def)
  have id2: "currentAssessmentId ?s2 = currentAssessmentId s" unfolding s2 by simp
  from room id2 have room2: "unat (currentAssessmentId ?s2) + 1 < 2 ^ 32" by simp
  have "ex_cycle k = [(ex_env 0xA (86400 * k + 36000), StartNewAssessment),
                     (ex_env 0xB2 (86400 * k + 72000), ProcessRiskAssessment)] @ [?cb]"
    by (simp add: ex_cycle_def)
  then have r: "run ex_lib (ex_cycle k) s = run ex_lib [?cb] ?s2" by (simp only: run_append)
  from callback_succeeds [OF chk room2, of "fst ?cb"]
  have s3: "run ex_lib [?cb] ?s2 = fst (projr (processAssessmentResult ex_lib (fst ?cb) k 80 [77, 80] ?s2))"
    by simp
  have above: "assessments s (currentAssessmentId s + 1) = zeroAssessment"
    using inv_zero [OF ok, of "currentAssessmentId s + 1"] less_inc32 [OF room] by simp
  have ne: "currentAssessmentId s + 1 \<noteq> currentAssessmentId s"
    using less_inc32 [OF room] by auto
  show ?thesis
    unfolding r s3 callback_succeeds [OF chk room2] unfolding s2
    using assms(2) above ne unat_inc32 [OF room] by simp
qed

lemma ex_cycles_state:
  "n + 1 < 2 ^ 32 \<Longrightarrow>
     unat (currentAssessmentId (run ex_lib (ex_cycles n) ex_deployed)) = n + 1
     \<and> counterRequest (run ex_lib (ex_cycles n) ex_deployed) = n
     \<and> owner (run ex_lib (ex_cycles n) ex_deployed) = 0xA
     \<and> assessments (run ex_lib (ex_cycles n) ex_deployed)
         (currentAssessmentId (run ex_lib (ex_cycles n) ex_deployed)) = zeroAssessment"
proof (induction n)
  case 0
  show ?case by (simp add: ex_deployed_def constructor_def ex_env_def)
next
  case (Suc n)
  let ?s = "run ex_lib (ex_cycles n) ex_deployed"
  from Suc have ih: "unat (currentAssessmentId ?s) = n + 1" "counterRequest ?s = n"
    "owner ?s = 0xA" "assessments ?s (currentAssessmentId ?s) = zeroAssessment" by simp_all
  have ok: "cycles_ok ?s" by (simp add: ex_deployed_def inv_run inv_constructor)
  from ih(1) Suc.prems have room: "unat (currentAssessmentId ?s) + 1 < 2 ^ 32" by simp
  from ex_cycle_step [OF ok ih(3) ih(4) ih(2) room] ih(1)
  show ?case by (simp add: run_append)
qed

section \<open>Time windows\<close>

text \<open>
  C6. For every timestamp, \<open>isBusinessHours\<close> holds exactly when the hour of the day,
  \<open>(t / 3600) mod 24\<close>, is at least 9 and below 17; and whenever the current cycle has its
  threshold set and is not completed, exactly one of the submission window
  (\<open>isBusinessHours\<close>) and the evaluation window (\<open>isEvaluationTimeActive\<close>) holds.
\<close>

theorem window_gating:
  "isBusinessHours e = (9 \<le> getCurrentHour e \<and> getCurrentHour e < 17)
   \<and> getCurrentHour e = (block_timestamp e div 3600) mod 24
   \<and> (thresholdSet (assessments s (currentAssessmentId s)) \<and>
      \<not> assessmentCompleted (assessments s (currentAssessmentId s))
      \<longrightarrow> (isBusinessHours e \<noteq> isEvaluationTimeActive e s))"
  by (auto simp: isBusinessHours_def getCurrentHour_def isEvaluationTimeActive_def
        BUSINESS_HOURS_START_def BUSINESS_HOURS_END_def Let_def)

theorem window_gating_witness:
  "thresholdSet (assessments ex_started (currentAssessmentId ex_started))
   \<and> \<not> assessmentCompleted (assessments ex_started (currentAssessmentId ex_started))
   \<and> getCurrentHour (ex_env 0xA 36000) = 10
   \<and> isBusinessHours (ex_env 0xA 36000)
   \<and> \<not> isEvaluationTimeActive (ex_env 0xA 36000) ex_started"
  using window_gating [of "ex_env 0xA 36000" ex_started]
  by (simp add: ex_defs getCurrentHour_def)

section \<open>Starting a cycle\<close>

text \<open>
  C5, as stated, fails: the owner and the time of day are checked before the state of the
  cycle. In the scenario, with cycle 1 active, the owner's \<open>startNewAssessment\<close> at
  20:00 reverts with "Not during business hours", a \<open>TimingError\<close>, and a call by another
  account at 10:03 reverts with "Not authorized", an \<open>AuthorizationError\<close>.
\<close>

theorem start_rejected_counterexample:
  "thresholdSet (assessments ex_submitted (currentAssessmentId ex_submitted))
   \<and> \<not> assessmentCompleted (assessments ex_submitted (currentAssessmentId ex_submitted))
   \<and> owner ex_submitted = 0xA
   \<and> startNewAssessment ex_lib (ex_env 0xA 72000) ex_submitted = Inl NotDuringBusinessHours
   \<and> \<not> fails_with StateError (startNewAssessment ex_lib (ex_env 0xA 72000) ex_submitted)
   \<and> startNewAssessment ex_lib (ex_env 0xB1 36200) ex_submitted = Inl NotAuthorized
   \<and> \<not> fails_with StateError (startNewAssessment ex_lib (ex_env 0xB1 36200) ex_submitted)"
  by (simp add: ex_defs fails_with_def)

text \<open>
  C5, amended. In every state in which the current cycle has its threshold set and is
  not completed, \<open>startNewAssessment\<close> reverts, so the storage stays as it was. The
  revert reason is "Not authorized" when the caller is not the owner, otherwise "Not
  during business hours" outside the submission window, otherwise "Assessment already
  active": the call fails with \<open>StateError\<close> exactly when the owner makes it during
  business hours.
\<close>

theorem start_during_active_cycle:
  assumes "thresholdSet (assessments s (currentAssessmentId s))"
    and "\<not> assessmentCompleted (assessments s (currentAssessmentId s))"
  shows "startNewAssessment L e s =
      Inl (if msg_sender e \<noteq> owner s then NotAuthorized
           else if \<not> isBusinessHours e then NotDuringBusinessHours
           else AssessmentAlreadyActive)
    \<and> fails_with StateError (startNewAssessment L e s)
        = (msg_sender e = owner s \<and> isBusinessHours e)
    \<and> run L [(e, StartNewAssessment)] s = s"
  using assms by (simp add: startNewAssessment_def fails_with_def)

theorem start_during_active_cycle_witness:
  "thresholdSet (assessments ex_submitted (currentAssessmentId ex_submitted))
   \<and> \<not> assessmentCompleted (assessments ex_submitted (currentAssessmentId ex_submitted))
   \<and> startNewAssessment ex_lib (ex_env 0xA 36200) ex_submitted = Inl AssessmentAlreadyActive
   \<and> fails_with StateError (startNewAssessment ex_lib (ex_env 0xA 36200) ex_submitted)"
proof -
  have a: "thresholdSet (assessments ex_submitted (currentAssessmentId ex_submitted))"
    and b: "\<not> assessmentCompleted (assessments ex_submitted (currentAssessmentId ex_submitted))"
    and c: "msg_sender (ex_env 0xA 36200) = owner ex_submitted"
    and d: "isBusinessHours (ex_env 0xA 36200)"
    by (simp_all add: ex_defs)
  from start_during_active_cycle [OF a b, of ex_lib "ex_env 0xA 36200"] a b c d
  show ?thesis by (simp add: fails_with_def)
qed

section \<open>Submitting a profile\<close>

text \<open>
  C7. While the assessment window is active, \<open>submitRiskProfile\<close> fails with \<open>RangeError\<close>
  for a credit score of 851, for 51 employment years and for a debt ratio of 101 (and
  whenever one of the three exceeds 850, 50, 100); and a caller who has not submitted in
  this cycle succeeds with the boundary values 850, 50, 100, and with any values within
  these bounds, whatever the 32-bit income is.
\<close>

theorem range_enforcement:
  assumes "isAssessmentWindowActive e s"
  shows "fails_with RangeError (submitRiskProfile L e 851 income employmentYears debtRatio s)
    \<and> fails_with RangeError (submitRiskProfile L e creditScore income 51 debtRatio s)
    \<and> fails_with RangeError (submitRiskProfile L e creditScore income employmentYears 101 s)
    \<and> (850 < creditScore \<or> 50 < employmentYears \<or> 100 < debtRatio \<longrightarrow>
         fails_with RangeError
           (submitRiskProfile L e creditScore income employmentYears debtRatio s))
    \<and> (\<not> hasSubmitted (profiles (assessments s (currentAssessmentId s)) (msg_sender e)) \<longrightarrow>
         \<not> isl (submitRiskProfile L e 850 income 50 100 s)
         \<and> (creditScore \<le> 850 \<and> employmentYears \<le> 50 \<and> debtRatio \<le> 100 \<longrightarrow>
              \<not> isl (submitRiskProfile L e creditScore income employmentYears debtRatio s)))"
  using assms by (auto simp: submitRiskProfile_def fails_with_def Let_def)

theorem range_enforcement_witness:
  "isAssessmentWindowActive (ex_env 0xB2 36200) ex_submitted
   \<and> \<not> hasSubmitted (profiles (assessments ex_submitted (currentAssessmentId ex_submitted))
          (msg_sender (ex_env 0xB2 36200)))
   \<and> fails_with RangeError (submitRiskProfile ex_lib (ex_env 0xB2 36200) 851 50000 3 40 ex_submitted)
   \<and> fails_with RangeError (submitRiskProfile ex_lib (ex_env 0xB2 36200) 650 50000 51 40 ex_submitted)
   \<and> fails_with RangeError (submitRiskProfile ex_lib (ex_env 0xB2 36200) 650 50000 3 101 ex_submitted)
   \<and> \<not> isl (submitRiskProfile ex_lib (ex_env 0xB2 36200) 850 0xFFFFFFFF 50 100 ex_submitted)"
proof -
  have a: "isAssessmentWindowActive (ex_env 0xB2 36200) ex_submitted"
    and b: "\<not> hasSubmitted (profiles (assessments ex_submitted (currentAssessmentId ex_submitted))
          (msg_sender (ex_env 0xB2 36200)))"
    by (simp_all add: ex_defs)
  from range_enforcement [OF a, where L = ex_lib and income = 50000 and employmentYears = 3
      and debtRatio = 40 and creditScore = 650]
    range_enforcement [OF a, where L = ex_lib and income = "0xFFFFFFFF"] a b
  show ?thesis by blast
qed




section \<open>The decryption callback\<close>

text \<open>
  C4, as stated, fails where the identifier cannot advance. After 4294967294 whole
  cycles, each started by the owner, requested in the evening and completed by the
  callback for its own request, the current identifier is \<open>2^32 - 1\<close>. The owner starts
  that cycle, its decryption is requested, and the callback for this request, whose
  proof verifies, reverts in the checked increment, recording nothing.
\<close>

theorem callback_overflow_counterexample:
  "checkSignatures ex_lib
     (run ex_lib
        (ex_cycles 4294967294 @
         [(ex_env 0xA (86400 * 4294967294 + 36000), StartNewAssessment),
          (ex_env 0xB2 (86400 * 4294967294 + 72000), ProcessRiskAssessment)])
        ex_deployed)
     4294967294 80 [77, 80] = None
   \<and> processAssessmentResult ex_lib (ex_env 0xDD (86400 * 4294967294 + 72060))
       4294967294 80 [77, 80]
       (run ex_lib
          (ex_cycles 4294967294 @
           [(ex_env 0xA (86400 * 4294967294 + 36000), StartNewAssessment),
            (ex_env 0xB2 (86400 * 4294967294 + 72000), ProcessRiskAssessment)])
          ex_deployed)
     = Inl ArithmeticOverflow"
proof -
  let ?s = "run ex_lib (ex_cycles 4294967294) ex_deployed"
  let ?S = "run ex_lib
        [(ex_env 0xA (86400 * 4294967294 + 36000), StartNewAssessment),
         (ex_env 0xB2 (86400 * 4294967294 + 72000), ProcessRiskAssessment)] ?s"
  have "(4294967294::nat) + 1 < 2 ^ 32" by simp
  from ex_cycles_state [OF this]
  have id: "unat (currentAssessmentId ?s) = 4294967294 + 1"
    and cnt: "counterRequest ?s = 4294967294"
    and own: "owner ?s = 0xA"
    and zero: "assessments ?s (currentAssessmentId ?s) = zeroAssessment"
    by blast+
  note S = ex_start_request [OF own zero cnt]
  have chk: "checkSignatures ex_lib ?S 4294967294 80 [77, 80] = None"
    unfolding S by (simp add: checkSignatures_def ex_lib_def)
  have "currentAssessmentId ?S = currentAssessmentId ?s" unfolding S by simp
  with id have full: "\<not> unat (currentAssessmentId ?S) + 1 < 2 ^ 32" by simp
  from chk callback_overflows [OF chk full] show ?thesis by (simp only: run_append)
qed

text \<open>
  C4, amended. On a callback whose proof verifies, while the current identifier is below
  \<open>2^32 - 1\<close>: the revealed threshold is stored as the cycle's final risk level, the end
  time is the block's timestamp, every participant of the cycle's list whose simulated
  risk is at most the threshold is marked approved, the cycle is marked completed, the
  events \<open>AssessmentCompleted\<close> (with the number of list entries approved) and
  \<open>RiskLevelRevealed\<close> are emitted in this order, and the current identifier advances
  by exactly one. Nothing else changes.
\<close>

theorem callback_effect:
  assumes "checkSignatures L s requestId threshold signatures = None"
    and "unat (currentAssessmentId s) + 1 < 2 ^ 32"
  shows "processAssessmentResult L e requestId threshold signatures s =
    Inr (s\<lparr>assessments := (assessments s)(currentAssessmentId s :=
                (assessments s (currentAssessmentId s))
                  \<lparr>finalRiskLevel := threshold, endTime := block_timestamp e,
                   approvedApplicants := (\<lambda>a. approvedApplicants (assessments s (currentAssessmentId s)) a \<or>
                      (a \<in> set (applicants (assessments s (currentAssessmentId s))) \<and>
                       calculateRiskScore L (currentAssessmentId s) a threshold)),
                   assessmentCompleted := True\<rparr>),
              currentAssessmentId := currentAssessmentId s + 1\<rparr>,
         [AssessmentCompleted (currentAssessmentId s)
            (length (filter (\<lambda>a. calculateRiskScore L (currentAssessmentId s) a threshold)
               (applicants (assessments s (currentAssessmentId s))))),
          RiskLevelRevealed (currentAssessmentId s) threshold])
    \<and> unat (currentAssessmentId s + 1) = unat (currentAssessmentId s) + 1"
  using assms
  by (simp add: processAssessmentResult_def evaluateApplicants_def evaluateLoop_eq Let_def
      unat_inc32)

theorem callback_effect_witness:
  "checkSignatures ex_lib ex_requested 0 80 [77, 80] = None
   \<and> unat (currentAssessmentId ex_requested) + 1 < 2 ^ 32
   \<and> snd (projr (processAssessmentResult ex_lib (ex_env 0xDD 72060) 0 80 [77, 80] ex_requested))
      = [AssessmentCompleted 1 1, RiskLevelRevealed 1 80]
   \<and> currentAssessmentId
       (fst (projr (processAssessmentResult ex_lib (ex_env 0xDD 72060) 0 80 [77, 80] ex_requested)))
      = 2"
proof -
  have a: "checkSignatures ex_lib ex_requested 0 80 [77, 80] = None" by (simp add: ex_defs)
  have b: "unat (currentAssessmentId ex_requested) + 1 < 2 ^ 32" by (simp add: ex_defs)
  have c: "currentAssessmentId ex_requested = 1" "applicants (assessments ex_requested 1) = [0xB1]"
    by (simp_all add: ex_defs)
  have d: "calculateRiskScore ex_lib 1 0xB1 80" by (simp add: calculateRiskScore_def ex_lib_def)
  from callback_effect [OF a b, of "ex_env 0xDD 72060"] a b c d show ?thesis by simp
qed

section \<open>Replay of the decryption callback\<close>

text \<open>
  C1, as stated, fails: the contract keeps no record of the request identifiers it has
  served, and the library keeps the handles of a request stored. In the scenario the
  request issued at 19:59 has the identifier 0; the callback for it at 20:01 succeeds
  and leaves the contract in the state \<open>ex_completed\<close>; the same callback sent again a
  minute later succeeds again: it does not fail, with \<open>StateError\<close> or otherwise.
\<close>

theorem replay_accepted_counterexample:
  "counterRequest ex_submitted = 0
   \<and> counterRequest ex_requested = 1
   \<and> requestedHandles ex_requested 0 = [77]
   \<and> processAssessmentResult ex_lib (ex_env 0xDD 72060) 0 80 [77, 80] ex_requested
       = Inr (ex_completed, [AssessmentCompleted 1 1, RiskLevelRevealed 1 80])
   \<and> \<not> fails_with StateError
         (processAssessmentResult ex_lib (ex_env 0xDD 72120) 0 80 [77, 80] ex_completed)
   \<and> \<not> isl (processAssessmentResult ex_lib (ex_env 0xDD 72120) 0 80 [77, 80] ex_completed)"
  by (simp add: ex_defs fails_with_def)

text \<open>
  C1, amended. After a callback with some request identifier has succeeded, a second
  callback with that identifier never fails with \<open>StateError\<close>. It fails with
  \<open>VerificationError\<close> exactly when the signatures of its payload and proof do not verify
  over the handles of that request, which are still stored. When they verify, as those
  of the first call do again, and the cycle identifier can still be incremented, it
  succeeds: it marks the cycle that is current by then as completed, with its own
  threshold as the final risk level, and the identifier has advanced twice.
\<close>

theorem replay_not_rejected:
  assumes "processAssessmentResult L e1 requestId th1 sg1 s = Inr r"
  shows "\<not> fails_with StateError (processAssessmentResult L e2 requestId th2 sg2 (fst r))
    \<and> fails_with VerificationError (processAssessmentResult L e2 requestId th2 sg2 (fst r))
        = (\<not> verifySignatures L (requestedHandles s requestId) th2 sg2)
    \<and> requestedHandles (fst r) requestId = requestedHandles s requestId
    \<and> (verifySignatures L (requestedHandles s requestId) th2 sg2
        \<and> unat (currentAssessmentId (fst r)) + 1 < 2 ^ 32
        \<longrightarrow> (\<exists>r2. processAssessmentResult L e2 requestId th2 sg2 (fst r) = Inr r2
              \<and> currentAssessmentId (fst r2) = currentAssessmentId s + 2
              \<and> assessmentCompleted (assessments (fst r2) (currentAssessmentId s + 1))
              \<and> finalRiskLevel (assessments (fst r2) (currentAssessmentId s + 1)) = th2))
    \<and> (unat (currentAssessmentId (fst r)) + 1 < 2 ^ 32
        \<longrightarrow> \<not> isl (processAssessmentResult L e2 requestId th1 sg1 (fst r)))"
proof -
  let ?hs = "requestedHandles s requestId"
  from callback_Inr [OF assms] have ok: "checkSignatures L s requestId th1 sg1 = None"
    and id1: "currentAssessmentId (fst r) = currentAssessmentId s + 1" by simp_all
  from callback_requests [OF assms] have rq: "requestedHandles (fst r) requestId = ?hs" by simp
  from ok have hs: "?hs \<noteq> []" and v1: "verifySignatures L ?hs th1 sg1"
    by (simp_all add: checkSignatures_None)
  have chk: "(checkSignatures L (fst r) requestId th sg = None) = verifySignatures L ?hs th sg"
    for th sg
    using hs rq by (simp add: checkSignatures_None)
  let ?second = "processAssessmentResult L e2 requestId th2 sg2 (fst r)"
  have a: "\<not> fails_with StateError ?second"
    by (cases ?second) (auto simp: fails_with_def dest!: callback_Inl checkSignatures_Some)
  have b: "fails_with VerificationError ?second = (\<not> verifySignatures L ?hs th2 sg2)"
  proof (cases ?second)
    case (Inl err)
    from callback_Inl [OF Inl] show ?thesis
    proof
      assume c: "checkSignatures L (fst r) requestId th2 sg2 = Some err"
      with chk [of th2 sg2] have "\<not> verifySignatures L ?hs th2 sg2" by simp
      with checkSignatures_Some [OF c] Inl show ?thesis by (simp add: fails_with_def)
    next
      assume "err = ArithmeticOverflow \<and> checkSignatures L (fst r) requestId th2 sg2 = None \<and>
        \<not> unat (currentAssessmentId (fst r)) + 1 < 2 ^ 32"
      with chk [of th2 sg2] Inl show ?thesis by (simp add: fails_with_def)
    qed
  next
    case (Inr r2)
    from callback_Inr [OF Inr] chk [of th2 sg2] Inr show ?thesis by (simp add: fails_with_def)
  qed
  have c: "\<exists>r2. ?second = Inr r2 \<and> currentAssessmentId (fst r2) = currentAssessmentId s + 2
        \<and> assessmentCompleted (assessments (fst r2) (currentAssessmentId s + 1))
        \<and> finalRiskLevel (assessments (fst r2) (currentAssessmentId s + 1)) = th2"
    if "verifySignatures L ?hs th2 sg2 \<and> unat (currentAssessmentId (fst r)) + 1 < 2 ^ 32"
  proof -
    from that chk [of th2 sg2] callback_Inr_iff [of L e2 requestId th2 sg2 "fst r"]
    obtain r2 where r2: "?second = Inr r2" by auto
    from callback_Inr [OF r2] id1
    have "currentAssessmentId (fst r2) = currentAssessmentId s + 2
        \<and> assessmentCompleted (assessments (fst r2) (currentAssessmentId s + 1))
        \<and> finalRiskLevel (assessments (fst r2) (currentAssessmentId s + 1)) = th2"
      by simp
    with r2 show ?thesis by blast
  qed
  have d: "\<not> isl (processAssessmentResult L e2 requestId th1 sg1 (fst r))"
    if "unat (currentAssessmentId (fst r)) + 1 < 2 ^ 32"
    using that v1 chk [of th1 sg1] callback_Inr_iff [of L e2 requestId th1 sg1 "fst r"] by auto
  from a b rq c d show ?thesis by blast
qed

theorem replay_not_rejected_witness:
  "processAssessmentResult ex_lib (ex_env 0xDD 72060) 0 80 [77, 80] ex_requested
     = Inr (ex_completed, [AssessmentCompleted 1 1, RiskLevelRevealed 1 80])
   \<and> unat (currentAssessmentId ex_completed) + 1 < 2 ^ 32
   \<and> \<not> fails_with StateError
         (processAssessmentResult ex_lib (ex_env 0xDD 72120) 0 80 [77, 80] ex_completed)
   \<and> \<not> isl (processAssessmentResult ex_lib (ex_env 0xDD 72120) 0 80 [77, 80] ex_completed)"
proof -
  have h: "processAssessmentResult ex_lib (ex_env 0xDD 72060) 0 80 [77, 80] ex_requested
     = Inr (ex_completed, [AssessmentCompleted 1 1, RiskLevelRevealed 1 80])"
    by (simp add: ex_defs)
  have room: "unat (currentAssessmentId
      (fst (ex_completed, [AssessmentCompleted 1 1, RiskLevelRevealed 1 80]))) + 1 < 2 ^ 32"
    by (simp add: ex_defs)
  from replay_not_rejected [OF h, of "ex_env 0xDD 72120" 80 "[77, 80]"] h room
  show ?thesis by simp
qed

section \<open>Pausing\<close>

text \<open>
  C10. \<open>pauseCurrentAssessment\<close> called by the owner succeeds in every state, whether or
  not a cycle has been started: it sets the completed flag and the end time of the
  current record and nothing else. Afterwards \<open>getAssessmentHistory\<close> reports the cycle
  as completed and \<open>checkApprovalStatus\<close> for it returns the stored approval flag, which
  is false for every participant in every state the contract can be in.
\<close>

theorem pause_by_owner_never_fails:
  assumes "msg_sender e = owner s"
  shows "pauseCurrentAssessment e s =
      Inr (s\<lparr>assessments := (assessments s)
              (currentAssessmentId s := (assessments s (currentAssessmentId s))
                 \<lparr>assessmentCompleted := True, endTime := block_timestamp e\<rparr>)\<rparr>, [])
    \<and> getAssessmentHistory (fst (projr (pauseCurrentAssessment e s))) (currentAssessmentId s)
        = (True, finalRiskLevel (assessments s (currentAssessmentId s)),
           startTime (assessments s (currentAssessmentId s)), block_timestamp e,
           length (applicants (assessments s (currentAssessmentId s))))
    \<and> checkApprovalStatus (fst (projr (pauseCurrentAssessment e s))) (currentAssessmentId s) a
        = Inr (approvedApplicants (assessments s (currentAssessmentId s)) a)
    \<and> (s = run L cs (constructor e0) \<longrightarrow>
        checkApprovalStatus (fst (projr (pauseCurrentAssessment e s))) (currentAssessmentId s) a
          = Inr False)"
proof -
  have p: "pauseCurrentAssessment e s =
      Inr (s\<lparr>assessments := (assessments s)
              (currentAssessmentId s := (assessments s (currentAssessmentId s))
                 \<lparr>assessmentCompleted := True, endTime := block_timestamp e\<rparr>)\<rparr>, [])"
    using assms by (simp add: pauseCurrentAssessment_def)
  have h: "getAssessmentHistory (fst (projr (pauseCurrentAssessment e s))) (currentAssessmentId s)
        = (True, finalRiskLevel (assessments s (currentAssessmentId s)),
           startTime (assessments s (currentAssessmentId s)), block_timestamp e,
           length (applicants (assessments s (currentAssessmentId s))))"
    unfolding p by (simp add: getAssessmentHistory_def)
  have c: "checkApprovalStatus (fst (projr (pauseCurrentAssessment e s))) (currentAssessmentId s) a
        = Inr (approvedApplicants (assessments s (currentAssessmentId s)) a)"
    unfolding p by (simp add: checkApprovalStatus_def)
  have d: "checkApprovalStatus (fst (projr (pauseCurrentAssessment e s))) (currentAssessmentId s) a
          = Inr False"
    if "s = run L cs (constructor e0)"
  proof -
    from that have "cycles_ok s" by (simp add: inv_run inv_constructor)
    from inv_approved [OF this, of a] c show ?thesis by simp
  qed
  from p h c d show ?thesis by blast
qed

theorem pause_by_owner_never_fails_witness:
  "msg_sender (ex_env 0xA 50000) = owner ex_deployed
   \<and> \<not> thresholdSet (assessments ex_deployed (currentAssessmentId ex_deployed))
   \<and> \<not> isl (pauseCurrentAssessment (ex_env 0xA 50000) ex_deployed)
   \<and> getAssessmentHistory (fst (projr (pauseCurrentAssessment (ex_env 0xA 50000) ex_deployed))) 1
       = (True, 0, 0, 50000, 0)
   \<and> checkApprovalStatus (fst (projr (pauseCurrentAssessment (ex_env 0xA 50000) ex_deployed))) 1 0xB1
       = Inr False"
proof -
  have a: "msg_sender (ex_env 0xA 50000) = owner ex_deployed" by (simp add: ex_defs)
  have b: "ex_deployed = run ex_lib [] (constructor (ex_env 0xA 36000))"
    by (simp add: ex_deployed_def)
  have c: "currentAssessmentId ex_deployed = 1"
    "assessments ex_deployed 1 = zeroAssessment"
    "block_timestamp (ex_env 0xA 50000) = 50000"
    by (simp_all add: ex_deployed_def constructor_def ex_env_def)
  note t = pause_by_owner_never_fails [OF a, where a = "0xB1" and L = ex_lib and cs = "[]"
      and ?e0.0 = "ex_env 0xA 36000"]
  from t have "\<exists>r. pauseCurrentAssessment (ex_env 0xA 50000) ex_deployed = Inr r" by blast
  then have 1: "\<not> isl (pauseCurrentAssessment (ex_env 0xA 50000) ex_deployed)" by auto
  from t have "getAssessmentHistory
      (fst (projr (pauseCurrentAssessment (ex_env 0xA 50000) ex_deployed)))
      (currentAssessmentId ex_deployed)
    = (True, finalRiskLevel (assessments ex_deployed (currentAssessmentId ex_deployed)),
       startTime (assessments ex_deployed (currentAssessmentId ex_deployed)),
       block_timestamp (ex_env 0xA 50000),
       length (applicants (assessments ex_deployed (currentAssessmentId ex_deployed))))"
    by blast
  then have 2: "getAssessmentHistory
      (fst (projr (pauseCurrentAssessment (ex_env 0xA 50000) ex_deployed))) 1
    = (True, 0, 0, 50000, 0)"
    unfolding c by (simp add: zeroAssessment_def)
  from t b have "checkApprovalStatus
      (fst (projr (pauseCurrentAssessment (ex_env 0xA 50000) ex_deployed)))
      (currentAssessmentId ex_deployed) 0xB1 = Inr False"
    by blast
  then have 3: "checkApprovalStatus
      (fst (projr (pauseCurrentAssessment (ex_env 0xA 50000) ex_deployed))) 1 0xB1 = Inr False"
    unfolding c .
  have 4: "\<not> thresholdSet (assessments ex_deployed (currentAssessmentId ex_deployed))"
    unfolding c by (simp add: zeroAssessment_def)
  from a 1 2 3 4 show ?thesis by blast
qed




section \<open>Completed cycles\<close>

text \<open>
  C2, as stated, fails for a cycle completed by \<open>pauseCurrentAssessment\<close>: it stays the
  current cycle. In the scenario the decryption of the threshold is requested at 19:59
  (request identifier 0) and the owner pauses at 20:00; the callback for that request
  at 20:01 is accepted and overwrites the end time, the final risk level and an
  approval flag of cycle 1; and
  \<open>startNewAssessment\<close> on the next day is accepted and clears its completed flag.
\<close>

theorem paused_cycle_mutated_counterexample:
  "requestedHandles ex_paused 0 = [77]
   \<and> currentAssessmentId ex_paused = 1
   \<and> assessmentCompleted (assessments ex_paused 1)
   \<and> endTime (assessments ex_paused 1) = 72000
   \<and> \<not> approvedApplicants (assessments ex_paused 1) 0xB1
   \<and> \<not> isl (processAssessmentResult ex_lib (ex_env 0xDD 72060) 0 80 [77, 80] ex_paused)
   \<and> endTime (assessments
         (fst (projr (processAssessmentResult ex_lib (ex_env 0xDD 72060) 0 80 [77, 80] ex_paused))) 1)
       = 72060
   \<and> finalRiskLevel (assessments
         (fst (projr (processAssessmentResult ex_lib (ex_env 0xDD 72060) 0 80 [77, 80] ex_paused))) 1)
       = 80
   \<and> approvedApplicants (assessments
         (fst (projr (processAssessmentResult ex_lib (ex_env 0xDD 72060) 0 80 [77, 80] ex_paused))) 1)
       0xB1
   \<and> \<not> isl (startNewAssessment ex_lib (ex_env 0xA 122400) ex_paused)
   \<and> \<not> assessmentCompleted (assessments
         (fst (projr (startNewAssessment ex_lib (ex_env 0xA 122400) ex_paused))) 1)"
  by (simp add: ex_defs)

text \<open>
  C2, amended. In every state the contract can be in, a completed cycle that is not the
  current one (its identifier is then below the current one: it was completed by a
  callback) is never written again: no transaction, and no sequence of transactions,
  changes its record.
\<close>

theorem completed_past_cycle_immutable:
  assumes "s = run L cs0 (constructor e0)"
    and "assessmentCompleted (assessments s i)"
    and "i \<noteq> currentAssessmentId s"
  shows "assessments (run L cs s) i = assessments s i
    \<and> i < currentAssessmentId (run L cs s)
    \<and> (exec L e c s = Inr r \<longrightarrow> assessments (fst r) i = assessments s i)"
proof -
  from assms(1) have ok: "cycles_ok s" by (simp add: inv_run inv_constructor)
  from completed_not_current_is_past [OF ok assms(2,3)] have lt: "i < currentAssessmentId s" .
  from lt run_id_mono [of s L cs] have "i < currentAssessmentId (run L cs s)" by simp
  with run_past_unchanged [OF lt] exec_other_unchanged [of L e c s r i] assms(3)
  show ?thesis by blast
qed

theorem completed_past_cycle_immutable_witness:
  "assessmentCompleted (assessments ex_completed 1) \<and> 1 \<noteq> currentAssessmentId ex_completed
   \<and> assessments (run ex_lib [(ex_env 0xA 122400, StartNewAssessment),
                               (ex_env 0xB1 122500, SubmitRiskProfile 700 5 5 5)] ex_completed) 1
     = assessments ex_completed 1
   \<and> exec ex_lib (ex_env 0xA 72120) PauseCurrentAssessment ex_completed
     = Inr (projr (exec ex_lib (ex_env 0xA 72120) PauseCurrentAssessment ex_completed))
   \<and> assessments
       (fst (projr (exec ex_lib (ex_env 0xA 72120) PauseCurrentAssessment ex_completed))) 1
     = assessments ex_completed 1"
proof -
  have s: "ex_completed = run ex_lib
      [(ex_env 0xA 36000, StartNewAssessment),
       (ex_env 0xB1 36100, SubmitRiskProfile 800 100000 10 20),
       (ex_env 0xB2 71990, ProcessRiskAssessment),
       (ex_env 0xDD 72060, ProcessAssessmentResult 0 80 [77, 80])] (constructor (ex_env 0xA 36000))"
    by (simp add: ex_defs)
  have a: "assessmentCompleted (assessments ex_completed 1)" by (simp add: ex_defs)
  have b: "1 \<noteq> currentAssessmentId ex_completed" by (simp add: ex_defs)
  have c: "exec ex_lib (ex_env 0xA 72120) PauseCurrentAssessment ex_completed
     = Inr (projr (exec ex_lib (ex_env 0xA 72120) PauseCurrentAssessment ex_completed))"
    by (simp add: ex_defs)
  from completed_past_cycle_immutable [OF s a b] a b c show ?thesis by blast
qed

section \<open>The cycle invariant\<close>

text \<open>
  C3, as stated, fails. In the scenario, cycle 1 is completed by the pause, and
  \<open>startNewAssessment\<close> then begins the new cycle under the same identifier 1, emptying
  the participant list of the completed record. Also, at deployment the current
  identifier refers to a cycle that is neither active nor completed.
\<close>

theorem restart_in_place_counterexample:
  "currentAssessmentId ex_paused = 1
   \<and> assessmentCompleted (assessments ex_paused 1)
   \<and> applicants (assessments ex_paused 1) = [0xB1]
   \<and> \<not> isl (startNewAssessment ex_lib (ex_env 0xA 122400) ex_paused)
   \<and> currentAssessmentId (fst (projr (startNewAssessment ex_lib (ex_env 0xA 122400) ex_paused))) = 1
   \<and> active (fst (projr (startNewAssessment ex_lib (ex_env 0xA 122400) ex_paused))) 1
   \<and> applicants (assessments
        (fst (projr (startNewAssessment ex_lib (ex_env 0xA 122400) ex_paused))) 1) = []
   \<and> startTime (assessments
        (fst (projr (startNewAssessment ex_lib (ex_env 0xA 122400) ex_paused))) 1) = 122400
   \<and> \<not> active ex_deployed (currentAssessmentId ex_deployed)
   \<and> \<not> assessmentCompleted (assessments ex_deployed (currentAssessmentId ex_deployed))"
  by (simp add: ex_defs active_def)

text \<open>
  C3, amended. In every state the contract can be in: only the current cycle can be
  active (threshold set, not completed), so at most one is; every cycle from 1 up to the
  current one, excluded, is completed; every record above the current identifier is
  unwritten; so every completed cycle has an identifier at most the current one. A new
  cycle begins under the current identifier, which \<open>startNewAssessment\<close> does not
  change; it writes no other record, and once it has run every completed cycle has an
  identifier strictly below the new cycle's.
\<close>

theorem cycle_invariant:
  assumes "s = run L cs (constructor e0)"
  shows "(active s i \<longrightarrow> i = currentAssessmentId s)
    \<and> (i \<noteq> 0 \<and> i < currentAssessmentId s \<longrightarrow> assessmentCompleted (assessments s i))
    \<and> (currentAssessmentId s < i \<longrightarrow> assessments s i = zeroAssessment)
    \<and> (assessmentCompleted (assessments s i) \<longrightarrow> i \<le> currentAssessmentId s)
    \<and> (startNewAssessment L e s = Inr r \<longrightarrow>
         currentAssessmentId (fst r) = currentAssessmentId s
         \<and> active (fst r) (currentAssessmentId s)
         \<and> (i \<noteq> currentAssessmentId s \<longrightarrow> assessments (fst r) i = assessments s i)
         \<and> (assessmentCompleted (assessments (fst r) i) \<longrightarrow> i < currentAssessmentId (fst r)))"
proof -
  let ?c = "currentAssessmentId s"
  from assms have ok: "cycles_ok s" by (simp add: inv_run inv_constructor)
  have comp_le: "j \<le> ?c" if "assessmentCompleted (assessments s j)" for j
    using completed_not_current_is_past [OF ok that] by (cases "j = ?c") auto
  have a: "i = ?c" if "active s i"
  proof (rule ccontr)
    assume ne: "i \<noteq> ?c"
    show False
    proof (cases "i < ?c")
      case True
      with inv_past [OF ok, of i] inv_zero [OF ok, of i] that show False
        by (cases "i = 0") (auto simp: active_def zeroAssessment_def)
    next
      case False
      with ne have "?c < i" by auto
      with inv_zero [OF ok, of i] that show False by (simp add: active_def zeroAssessment_def)
    qed
  qed
  have b: "assessmentCompleted (assessments s i)" if "i \<noteq> 0 \<and> i < ?c"
    using that inv_past [OF ok, of i] by simp
  have c: "assessments s i = zeroAssessment" if "?c < i"
    using that inv_zero [OF ok, of i] by simp
  have e: "currentAssessmentId (fst r) = ?c \<and> active (fst r) ?c
         \<and> (i \<noteq> ?c \<longrightarrow> assessments (fst r) i = assessments s i)
         \<and> (assessmentCompleted (assessments (fst r) i) \<longrightarrow> i < currentAssessmentId (fst r))"
    if st: "startNewAssessment L e s = Inr r"
  proof -
    from start_Inr [OF st] have r: "fst r = s\<lparr>assessments := (assessments s)(?c :=
                (assessments s ?c)
                  \<lparr>riskThreshold := randEuint8 e, thresholdSet := True,
                   assessmentCompleted := False, startTime := block_timestamp e,
                   applicants := []\<rparr>),
              acl := insert (randEuint8 e, this L) (acl s)\<rparr>" by simp
    have "i < ?c" if "assessmentCompleted (assessments (fst r) i)"
    proof -
      from that r have "i \<noteq> ?c" by auto
      moreover from this that r have "assessmentCompleted (assessments s i)" by simp
      ultimately show ?thesis using comp_le [of i] by auto
    qed
    with r show ?thesis by (simp add: active_def)
  qed
  from a b c comp_le [of i] e show ?thesis by blast
qed

theorem cycle_invariant_witness:
  "active ex_started 1 \<and> currentAssessmentId ex_started = 1
   \<and> assessments ex_started 2 = zeroAssessment
   \<and> startNewAssessment ex_lib (ex_env 0xA 122400) ex_paused
       = Inr (ex_restarted, [AssessmentStarted 1 122400])
   \<and> currentAssessmentId ex_restarted = currentAssessmentId ex_paused
   \<and> active ex_restarted (currentAssessmentId ex_paused)"
proof -
  have s: "ex_started = run ex_lib [(ex_env 0xA 36000, StartNewAssessment)] (constructor (ex_env 0xA 36000))"
    by (simp add: ex_started_def ex_deployed_def)
  have a: "active ex_started 1" by (simp add: ex_defs active_def)
  from cycle_invariant [OF s, of 1] a have "1 = currentAssessmentId ex_started" by blast
  moreover from this cycle_invariant [OF s, of 2] have "assessments ex_started 2 = zeroAssessment"
    by (simp add: word_less_nat_alt)
  moreover have p: "ex_paused = run ex_lib
      [(ex_env 0xA 36000, StartNewAssessment),
       (ex_env 0xB1 36100, SubmitRiskProfile 800 100000 10 20),
       (ex_env 0xB2 71990, ProcessRiskAssessment),
       (ex_env 0xA 72000, PauseCurrentAssessment)] (constructor (ex_env 0xA 36000))"
    by (simp add: ex_defs)
  have r: "startNewAssessment ex_lib (ex_env 0xA 122400) ex_paused
       = Inr (ex_restarted, [AssessmentStarted 1 122400])"
    by (simp add: ex_defs)
  from cycle_invariant [OF p, where e = "ex_env 0xA 122400"
      and r = "(ex_restarted, [AssessmentStarted 1 122400])"] r
  have "currentAssessmentId ex_restarted = currentAssessmentId ex_paused
    \<and> active ex_restarted (currentAssessmentId ex_paused)" by simp
  ultimately show ?thesis using a r by simp
qed

end
